theory Spec2Isabelle
  imports Complex_Main "HOL-Library.Word"
begin

unbundle bit_operations_syntax

section \<open>The C++ type double\<close>

text \<open>
  Every parameter and the result of \<^verbatim>\<open>RNSwephImpl::swe_julday\<close> is a C++
  \<^verbatim>\<open>double\<close>, an IEEE-754 binary64 value. It is modelled by its 64 bits: bit 63 is
  the sign, bits 62..52 the biased exponent, bits 51..0 the fraction. The bit patterns
  with exponent 2047 are the infinities (fraction 0) and the NaNs (fraction not 0), so
  a statement over all of \<open>double\<close> covers the non-finite arguments too.
\<close>

type_synonym double = "64 word"

definition sign_of :: "double \<Rightarrow> bool" where
  "sign_of x = bit x 63"

definition exponent_of :: "double \<Rightarrow> nat" where
  "exponent_of x = unat (drop_bit 52 x AND 0x7FF)"

definition fraction_of :: "double \<Rightarrow> nat" where
  "fraction_of x = unat (x AND 0xFFFFFFFFFFFFF)"

definition isfinite :: "double \<Rightarrow> bool" where
  "isfinite x = (exponent_of x < 2047)"

definition isinf :: "double \<Rightarrow> bool" where
  "isinf x = (exponent_of x = 2047 \<and> fraction_of x = 0)"

definition isnan :: "double \<Rightarrow> bool" where
  "isnan x = (exponent_of x = 2047 \<and> fraction_of x \<noteq> 0)"

text \<open>
  The number a bit pattern stands for: subnormal when the exponent field is 0, otherwise
  \<open>(2^52 + fraction) * 2^(exponent - 1075)\<close>. Every finite double is a rational. On an
  infinity the same formula gives \<open>2^1024\<close>, above every finite double, so comparing
  \<open>value_of\<close> orders the infinities as IEEE-754 does.
\<close>

definition magnitude :: "double \<Rightarrow> rat" where
  "magnitude x =
     (let e = exponent_of x; f = fraction_of x
      in if e = 0 then of_nat f / 2 ^ 1074
         else if 1075 \<le> e then of_nat (2 ^ 52 + f) * 2 ^ (e - 1075)
         else of_nat (2 ^ 52 + f) / 2 ^ (1075 - e))"

definition value_of :: "double \<Rightarrow> rat" where
  "value_of x = (if sign_of x then - magnitude x else magnitude x)"

text \<open>The comparisons of C++ on doubles: any comparison with a NaN is false.\<close>

definition double_lt :: "double \<Rightarrow> double \<Rightarrow> bool" where
  "double_lt a b = (\<not> isnan a \<and> \<not> isnan b \<and> value_of a < value_of b)"

definition double_le :: "double \<Rightarrow> double \<Rightarrow> bool" where
  "double_le a b = (\<not> isnan a \<and> \<not> isnan b \<and> value_of a \<le> value_of b)"

text \<open>The double literals that the statements below use, as bit patterns.\<close>

definition d_0 :: double where "d_0 = 0x0000000000000000"
definition d_1 :: double where "d_1 = 0x3FF0000000000000"
definition d_2 :: double where "d_2 = 0x4000000000000000"
definition d_4 :: double where "d_4 = 0x4010000000000000"
definition d_10 :: double where "d_10 = 0x4024000000000000"
definition d_12 :: double where "d_12 = 0x4028000000000000"
definition d_15 :: double where "d_15 = 0x402E000000000000"
definition d_18 :: double where "d_18 = 0x4032000000000000"
definition d_30 :: double where "d_30 = 0x403E000000000000"
definition d_1582 :: double where "d_1582 = 0x4098B80000000000"
definition d_2000 :: double where "d_2000 = 0x409F400000000000"
definition d_2023 :: double where "d_2023 = 0x409F9C0000000000"
definition d_2451545 :: double where "d_2451545 = 0x4142B42C80000000"
definition d_2451545_25 :: double where "d_2451545_25 = 0x4142B42CA0000000"
definition d_neg_30 :: double where "d_neg_30 = 0xC03E000000000000"
definition d_nan :: double where "d_nan = 0x7FF8000000000000"
definition d_inf :: double where "d_inf = 0x7FF0000000000000"

section \<open>The class RNSwephImpl\<close>

text \<open>
  \<^verbatim>\<open>class RNSwephImpl\<close> (RNSwephImpl.h) declares a constructor and the method
  \<^verbatim>\<open>swe_julday\<close>, and no data member; the constructor's body is empty
  (RNSwephImpl.cpp, line 9). An object of the class is the one value \<open>RNSwephImpl\<close>.
\<close>

datatype RNSwephImpl = RNSwephImpl

text \<open>
  The errors a conversion can report to its caller. The method below has no
  \<^verbatim>\<open>throw\<close> and calls nothing, so none of them is a branch of its model; the type is
  there so that "fails with InvalidDateError" can be stated and tested.
\<close>

datatype error = InvalidDateError | DomainError | InvalidArgumentError

text \<open>
  RNSwephImpl.cpp, lines 11 to 15:
  \<^verbatim>\<open>
  double RNSwephImpl::swe_julday(double year, double month, double day,
                                 double hour, double gregflag) {
    // Mock implementation for scaffold
    // Real implementation: return swe_julday(year, month, day, hour, gregflag);
    return 0.0;
  }
  \<close>
  The call takes the receiver \<open>self\<close>, the five arguments and the state \<open>w\<close> of the
  rest of the program (of any type), and gives back the outcome (\<open>Inr\<close> the returned
  double, \<open>Inl\<close> an error) and the state after the call. The body reads no parameter, no
  member and no global, and writes nothing.
\<close>

definition swe_julday ::
  "RNSwephImpl \<Rightarrow> double \<Rightarrow> double \<Rightarrow> double \<Rightarrow> double \<Rightarrow> double \<Rightarrow> 'w
     \<Rightarrow> (error + double) \<times> 'w" where
  "swe_julday self year month day hour gregflag w = (Inr d_0, w)"

section \<open>The vocabulary of the specification\<close>

text \<open>
  The specification speaks of \<open>toJulianDay(date, system)\<close>, implemented by
  \<^verbatim>\<open>swe_julday\<close>. Its CalendarDate arrives as four doubles (section 6: "numeric
  arguments arrive as IEEE-754 double precision"), its CalendarSystem as the flag.
\<close>

datatype CalendarSystem = JULIAN | GREGORIAN

record CalendarDate =
  year :: double
  month :: double
  day :: double
  hour :: double

text \<open>
  Modelled from the spec: the encoding of the calendar flag. The header swephexp.h of
  the Swiss Ephemeris library, which the source names and does not include, has
  \<^verbatim>\<open>SE_JUL_CAL 0\<close> and \<^verbatim>\<open>SE_GREG_CAL 1\<close>; the specification only says that the flag is
  "a boolean or small integer mapped exactly to {JULIAN, GREGORIAN}".
\<close>

fun gregflag_of :: "CalendarSystem \<Rightarrow> double" where
  "gregflag_of JULIAN = d_0"
| "gregflag_of GREGORIAN = d_1"

text \<open>
  \<open>toJulianDay\<close> is the call of the method on a constructed object, in the program
  state \<open>w\<close>; its value is the outcome of the call.
\<close>

definition toJulianDay :: "CalendarDate \<Rightarrow> CalendarSystem \<Rightarrow> 'w \<Rightarrow> error + double" where
  "toJulianDay date system w =
     fst (swe_julday RNSwephImpl (year date) (month date) (day date) (hour date)
            (gregflag_of system) w)"

text \<open>
  A valid CalendarDate (specification, sections 3 and 4.1): year, month and day are
  integers, the month is in [1,12], the day is in [1, length of that month in that year
  under the system's leap-year rule], the hour is in [0,24). Any integer year is
  allowed, 0 and negative years too.
\<close>

definition integral :: "double \<Rightarrow> bool" where
  "integral x = (isfinite x \<and> of_int \<lfloor>value_of x\<rfloor> = value_of x)"

fun leap_year :: "CalendarSystem \<Rightarrow> int \<Rightarrow> bool" where
  "leap_year JULIAN y = (y mod 4 = 0)"
| "leap_year GREGORIAN y = (y mod 4 = 0 \<and> (y mod 100 \<noteq> 0 \<or> y mod 400 = 0))"

definition days_in_month :: "CalendarSystem \<Rightarrow> int \<Rightarrow> int \<Rightarrow> int" where
  "days_in_month system y m =
     (if m = 2 then (if leap_year system y then 29 else 28)
      else if m = 4 \<or> m = 6 \<or> m = 9 \<or> m = 11 then 30
      else 31)"

definition valid_date :: "CalendarDate \<Rightarrow> CalendarSystem \<Rightarrow> bool" where
  "valid_date date system =
     (integral (year date) \<and> integral (month date) \<and> integral (day date) \<and>
      isfinite (hour date) \<and>
      1 \<le> value_of (month date) \<and> value_of (month date) \<le> 12 \<and>
      1 \<le> value_of (day date) \<and>
      \<lfloor>value_of (day date)\<rfloor>
        \<le> days_in_month system \<lfloor>value_of (year date)\<rfloor> \<lfloor>value_of (month date)\<rfloor> \<and>
      0 \<le> value_of (hour date) \<and> value_of (hour date) < 24)"

text \<open>Calendar date order: by year, then month, then day, then hour.\<close>

definition earlier :: "CalendarDate \<Rightarrow> CalendarDate \<Rightarrow> bool" where
  "earlier a b =
     (value_of (year a) < value_of (year b) \<or>
      value_of (year a) = value_of (year b) \<and>
        (value_of (month a) < value_of (month b) \<or>
         value_of (month a) = value_of (month b) \<and>
           (value_of (day a) < value_of (day b) \<or>
            value_of (day a) = value_of (day b) \<and>
              value_of (hour a) < value_of (hour b))))"

text \<open>
  What the statements say about outcomes: the call returned a finite double of the
  given value; one outcome is below (at most) the other as doubles; two returned day
  numbers differ by a given amount; a returned day number is within the tolerance of
  1e-9 days of a given one.
\<close>

definition returns_value :: "error + double \<Rightarrow> rat \<Rightarrow> bool" where
  "returns_value r v = (case r of Inl e \<Rightarrow> False | Inr x \<Rightarrow> isfinite x \<and> value_of x = v)"

definition outcome_lt :: "error + double \<Rightarrow> error + double \<Rightarrow> bool" where
  "outcome_lt r s =
     (case r of Inl e \<Rightarrow> False
      | Inr x \<Rightarrow> (case s of Inl e \<Rightarrow> False | Inr y \<Rightarrow> double_lt x y))"

definition outcome_le :: "error + double \<Rightarrow> error + double \<Rightarrow> bool" where
  "outcome_le r s =
     (case r of Inl e \<Rightarrow> False
      | Inr x \<Rightarrow> (case s of Inl e \<Rightarrow> False | Inr y \<Rightarrow> double_le x y))"

definition differ_by :: "error + double \<Rightarrow> error + double \<Rightarrow> rat \<Rightarrow> bool" where
  "differ_by r s k =
     (case r of Inl e \<Rightarrow> False
      | Inr x \<Rightarrow> (case s of Inl e \<Rightarrow> False
                 | Inr y \<Rightarrow> isfinite x \<and> isfinite y \<and> \<bar>value_of y - value_of x\<bar> = k))"



section \<open>Decoding the literals\<close>

lemma exponent_of_d_0: "exponent_of d_0 = 0"
  by (simp add: exponent_of_def d_0_def)

lemma fraction_of_d_0: "fraction_of d_0 = 0"
  by (simp add: fraction_of_def d_0_def)

lemma sign_of_d_0: "\<not> sign_of d_0"
  by (simp add: sign_of_def d_0_def)

lemma value_of_d_0: "value_of d_0 = 0"
  by (simp add: value_of_def magnitude_def exponent_of_d_0 fraction_of_d_0 sign_of_d_0)

lemma isfinite_d_0: "isfinite d_0"
  by (simp add: isfinite_def exponent_of_d_0)

lemma not_isnan_d_0: "\<not> isnan d_0"
  by (simp add: isnan_def exponent_of_d_0)

lemmas decode_defs =
  value_of_def magnitude_def exponent_of_def fraction_of_def sign_of_def

lemma value_of_d_1: "value_of d_1 = 1"
  by (simp add: decode_defs d_1_def)

lemma value_of_d_2: "value_of d_2 = 2"
  by (simp add: decode_defs d_2_def)

lemma value_of_d_4: "value_of d_4 = 4"
  by (simp add: decode_defs d_4_def)

lemma value_of_d_10: "value_of d_10 = 10"
  by (simp add: decode_defs d_10_def)

lemma value_of_d_12: "value_of d_12 = 12"
  by (simp add: decode_defs d_12_def)

lemma value_of_d_15: "value_of d_15 = 15"
  by (simp add: decode_defs d_15_def)

lemma value_of_d_18: "value_of d_18 = 18"
  by (simp add: decode_defs d_18_def)

lemma value_of_d_30: "value_of d_30 = 30"
  by (simp add: decode_defs d_30_def)

lemma value_of_d_1582: "value_of d_1582 = 1582"
  by (simp add: decode_defs d_1582_def)

lemma value_of_d_2000: "value_of d_2000 = 2000"
  by (simp add: decode_defs d_2000_def)

lemma value_of_d_2023: "value_of d_2023 = 2023"
  by (simp add: decode_defs d_2023_def)

lemma value_of_d_2451545: "value_of d_2451545 = 2451545"
  by (simp add: decode_defs d_2451545_def)

lemma value_of_d_2451545_25: "value_of d_2451545_25 = 2451545 + 1 / 4"
  by (simp add: decode_defs d_2451545_25_def)

lemma value_of_d_neg_30: "value_of d_neg_30 = - 30"
  by (simp add: decode_defs d_neg_30_def)

lemmas value_of_literals =
  value_of_d_0 value_of_d_1 value_of_d_2 value_of_d_4 value_of_d_10 value_of_d_12
  value_of_d_15 value_of_d_18 value_of_d_30 value_of_d_1582 value_of_d_2000
  value_of_d_2023 value_of_d_2451545 value_of_d_2451545_25

lemma isfinite_literals:
  "isfinite d_1" "isfinite d_2" "isfinite d_4" "isfinite d_10" "isfinite d_12"
  "isfinite d_15" "isfinite d_18" "isfinite d_30" "isfinite d_1582" "isfinite d_2000"
  "isfinite d_2023" "isfinite d_2451545" "isfinite d_2451545_25"
  by (simp_all add: isfinite_def exponent_of_def d_1_def d_2_def d_4_def d_10_def
      d_12_def d_15_def d_18_def d_30_def d_1582_def d_2000_def d_2023_def
      d_2451545_def d_2451545_25_def)

lemma integral_literals:
  "integral d_1" "integral d_2" "integral d_4" "integral d_10" "integral d_15"
  "integral d_30" "integral d_1582" "integral d_2000" "integral d_2023"
  by (simp_all add: integral_def isfinite_literals value_of_literals)

lemma non_finite_literals:
  "isnan d_nan" "\<not> isfinite d_nan" "isinf d_inf" "\<not> isfinite d_inf"
  by (simp_all add: isnan_def isinf_def isfinite_def exponent_of_def fraction_of_def
      d_nan_def d_inf_def)

text \<open>A double is not finite exactly when it is an infinity or a NaN.\<close>

lemma not_isfinite_iff: "\<not> isfinite x \<longleftrightarrow> isinf x \<or> isnan x"
proof -
  have "drop_bit 52 x AND 0x7FF \<le> (0x7FF :: double)"
    by (rule word_and_le1)
  then have "exponent_of x \<le> 2047"
    by (simp add: exponent_of_def word_le_nat_alt)
  then show ?thesis
    by (auto simp add: isfinite_def isinf_def isnan_def)
qed

section \<open>The method on every input\<close>

lemma swe_julday_outcome: "fst (swe_julday self y m d h g w) = Inr d_0"
  by (simp add: swe_julday_def)

lemma toJulianDay_outcome: "toJulianDay date system w = Inr d_0"
  by (simp add: toJulianDay_def swe_julday_def)

lemma outcome_le_zero: "outcome_le (Inr d_0) (Inr d_0)"
  by (simp add: outcome_le_def double_le_def not_isnan_d_0)

lemma not_outcome_lt_zero: "\<not> outcome_lt (Inr d_0) (Inr d_0)"
  by (simp add: outcome_lt_def double_lt_def)


section \<open>The dates of the scenarios\<close>

lemma jan1_valid:
  "valid_date \<lparr>year = d_2000, month = d_1, day = d_1, hour = d_12\<rparr> GREGORIAN"
  by (simp add: valid_date_def days_in_month_def value_of_literals integral_literals
      isfinite_literals)

lemma jan2_valid:
  "valid_date \<lparr>year = d_2000, month = d_1, day = d_2, hour = d_12\<rparr> GREGORIAN"
  by (simp add: valid_date_def days_in_month_def value_of_literals integral_literals
      isfinite_literals)

lemma jan1_earlier_jan2:
  "earlier \<lparr>year = d_2000, month = d_1, day = d_1, hour = d_12\<rparr>
           \<lparr>year = d_2000, month = d_1, day = d_2, hour = d_12\<rparr>"
  by (simp add: earlier_def value_of_literals)

lemma feb30_invalid:
  "\<not> valid_date \<lparr>year = d_2023, month = d_2, day = d_30, hour = d_0\<rparr> GREGORIAN"
  by (simp add: valid_date_def days_in_month_def value_of_literals)



section \<open>The claims\<close>

subsection \<open>C1: the J2000.0 epoch\<close>

text \<open>
  C1, as the code has it: \<open>toJulianDay\<close> applied to year 2000, month 1, day 1, hour 12
  with the Gregorian flag returns the finite double of value 0, in every program state.
\<close>

theorem j2000_returns_zero:
  "returns_value
     (toJulianDay \<lparr>year = d_2000, month = d_1, day = d_1, hour = d_12\<rparr> GREGORIAN w) 0"
  by (simp add: returns_value_def toJulianDay_outcome isfinite_d_0 value_of_d_0)

text \<open>
  C1, as the specification states it, fails: the call does not return a double of value
  2451545.
\<close>

theorem j2000_not_2451545:
  "\<not> returns_value
       (toJulianDay \<lparr>year = d_2000, month = d_1, day = d_1, hour = d_12\<rparr> GREGORIAN ())
       2451545"
  by (simp add: returns_value_def toJulianDay_outcome isfinite_d_0 value_of_d_0)

subsection \<open>C2: the fractional hour\<close>

text \<open>
  C2, as the code has it: \<open>toJulianDay\<close> applied to year 2000, month 1, day 1, hour 18
  with the Gregorian flag returns the finite double of value 0; the hour leaves no
  trace in the result.
\<close>

theorem j2000_evening_returns_zero:
  "returns_value
     (toJulianDay \<lparr>year = d_2000, month = d_1, day = d_1, hour = d_18\<rparr> GREGORIAN w) 0"
  by (simp add: returns_value_def toJulianDay_outcome isfinite_d_0 value_of_d_0)

text \<open>
  C2, as the specification states it, fails: the call does not return a double of value
  2451545.25.
\<close>

theorem j2000_evening_not_2451545_25:
  "\<not> returns_value
       (toJulianDay \<lparr>year = d_2000, month = d_1, day = d_1, hour = d_18\<rparr> GREGORIAN ())
       (2451545 + 1 / 4)"
  by (simp add: returns_value_def toJulianDay_outcome isfinite_d_0 value_of_d_0)

subsection \<open>C3: out-of-range dates\<close>

text \<open>
  C3, as the code has it: a date that is not valid under the system is not rejected;
  the call returns the double 0.0 and reports no InvalidDateError. The method checks
  none of its arguments.
\<close>

theorem invalid_date_not_rejected:
  "\<not> valid_date date system \<Longrightarrow>
     toJulianDay date system w = Inr d_0 \<and> toJulianDay date system w \<noteq> Inl InvalidDateError"
  by (simp add: toJulianDay_outcome)

text \<open>The theorem at 30 February 2023, hour 0, Gregorian, which is not a valid date.\<close>

theorem invalid_date_not_rejected_witness:
  "\<not> valid_date \<lparr>year = d_2023, month = d_2, day = d_30, hour = d_0\<rparr> GREGORIAN \<and>
   toJulianDay \<lparr>year = d_2023, month = d_2, day = d_30, hour = d_0\<rparr> GREGORIAN () = Inr d_0 \<and>
   toJulianDay \<lparr>year = d_2023, month = d_2, day = d_30, hour = d_0\<rparr> GREGORIAN ()
     \<noteq> Inl InvalidDateError"
  using invalid_date_not_rejected [OF feb30_invalid, of "()"] feb30_invalid
  by blast

text \<open>
  C3, as the specification states it, fails: 30 February 2023 is out of range, and the
  call does not fail with InvalidDateError.
\<close>

theorem feb30_no_InvalidDateError:
  "\<not> valid_date \<lparr>year = d_2023, month = d_2, day = d_30, hour = d_0\<rparr> GREGORIAN \<and>
   toJulianDay \<lparr>year = d_2023, month = d_2, day = d_30, hour = d_0\<rparr> GREGORIAN ()
     \<noteq> Inl InvalidDateError"
  by (simp add: toJulianDay_outcome feb30_invalid)

subsection \<open>C4: monotonicity\<close>

text \<open>
  C4, as the code has it: for a fixed calendar system and valid dates \<open>a\<close> earlier than
  \<open>b\<close> in calendar date order, \<open>toJulianDay a\<close> is at most \<open>toJulianDay b\<close>; the two
  are equal, so the order is never strict.
\<close>

theorem toJulianDay_weakly_monotone:
  "valid_date a system \<Longrightarrow> valid_date b system \<Longrightarrow> earlier a b \<Longrightarrow>
     outcome_le (toJulianDay a system w) (toJulianDay b system w) \<and>
     toJulianDay a system w = toJulianDay b system w"
  by (simp add: toJulianDay_outcome outcome_le_zero)

text \<open>The theorem at 1 and 2 January 2000, noon, Gregorian.\<close>

theorem toJulianDay_weakly_monotone_witness:
  "valid_date \<lparr>year = d_2000, month = d_1, day = d_1, hour = d_12\<rparr> GREGORIAN \<and>
   valid_date \<lparr>year = d_2000, month = d_1, day = d_2, hour = d_12\<rparr> GREGORIAN \<and>
   earlier \<lparr>year = d_2000, month = d_1, day = d_1, hour = d_12\<rparr>
           \<lparr>year = d_2000, month = d_1, day = d_2, hour = d_12\<rparr> \<and>
   outcome_le
     (toJulianDay \<lparr>year = d_2000, month = d_1, day = d_1, hour = d_12\<rparr> GREGORIAN ())
     (toJulianDay \<lparr>year = d_2000, month = d_1, day = d_2, hour = d_12\<rparr> GREGORIAN ())"
  using toJulianDay_weakly_monotone [OF jan1_valid jan2_valid jan1_earlier_jan2, of "()"]
    jan1_valid jan2_valid jan1_earlier_jan2
  by blast

text \<open>
  C4, as the specification states it, fails: 1 January 2000 is valid and earlier than
  2 January 2000, also valid, and the first result is not below the second.
\<close>

theorem toJulianDay_not_strictly_monotone:
  "valid_date \<lparr>year = d_2000, month = d_1, day = d_1, hour = d_12\<rparr> GREGORIAN \<and>
   valid_date \<lparr>year = d_2000, month = d_1, day = d_2, hour = d_12\<rparr> GREGORIAN \<and>
   earlier \<lparr>year = d_2000, month = d_1, day = d_1, hour = d_12\<rparr>
           \<lparr>year = d_2000, month = d_1, day = d_2, hour = d_12\<rparr> \<and>
   \<not> outcome_lt
     (toJulianDay \<lparr>year = d_2000, month = d_1, day = d_1, hour = d_12\<rparr> GREGORIAN ())
     (toJulianDay \<lparr>year = d_2000, month = d_1, day = d_2, hour = d_12\<rparr> GREGORIAN ())"
  by (simp add: toJulianDay_outcome not_outcome_lt_zero jan1_valid jan2_valid
      jan1_earlier_jan2)

subsection \<open>C5: the round trip\<close>




subsection \<open>C6: the calendar transition of 1582\<close>

text \<open>
  C6, as the code has it: \<open>toJulianDay\<close> of 4 October 1582 (Julian) and of 15 October
  1582 (Gregorian), both at hour 0, each return the double 0.0, of value 0; the two
  Julian Day Numbers are the same and differ by 0.
\<close>

theorem calendar_transition_differ_by_zero:
  "toJulianDay \<lparr>year = d_1582, month = d_10, day = d_4, hour = d_0\<rparr> JULIAN w = Inr d_0 \<and>
   toJulianDay \<lparr>year = d_1582, month = d_10, day = d_15, hour = d_0\<rparr> GREGORIAN w = Inr d_0 \<and>
   returns_value
     (toJulianDay \<lparr>year = d_1582, month = d_10, day = d_4, hour = d_0\<rparr> JULIAN w) 0 \<and>
   returns_value
     (toJulianDay \<lparr>year = d_1582, month = d_10, day = d_15, hour = d_0\<rparr> GREGORIAN w) 0 \<and>
   differ_by
     (toJulianDay \<lparr>year = d_1582, month = d_10, day = d_4, hour = d_0\<rparr> JULIAN w)
     (toJulianDay \<lparr>year = d_1582, month = d_10, day = d_15, hour = d_0\<rparr> GREGORIAN w) 0"
  by (simp add: differ_by_def returns_value_def toJulianDay_outcome isfinite_d_0
      value_of_d_0)

text \<open>C6, as the specification states it, fails: the two results do not differ by 1.\<close>

theorem calendar_transition_not_differ_by_one:
  "\<not> differ_by
     (toJulianDay \<lparr>year = d_1582, month = d_10, day = d_4, hour = d_0\<rparr> JULIAN ())
     (toJulianDay \<lparr>year = d_1582, month = d_10, day = d_15, hour = d_0\<rparr> GREGORIAN ()) 1"
  by (simp add: differ_by_def toJulianDay_outcome isfinite_d_0)

subsection \<open>C7: a finite result and no exception on valid input\<close>

text \<open>
  C7: for every valid date under either system, in every program state,
  \<open>toJulianDay\<close> raises no error and returns a finite double.
\<close>

theorem toJulianDay_finite_no_error:
  "valid_date date system \<Longrightarrow> \<exists>x. toJulianDay date system w = Inr x \<and> isfinite x"
  by (simp add: toJulianDay_outcome isfinite_d_0)

text \<open>The theorem at 1 January 2000, noon, Gregorian.\<close>

theorem toJulianDay_finite_no_error_witness:
  "valid_date \<lparr>year = d_2000, month = d_1, day = d_1, hour = d_12\<rparr> GREGORIAN \<and>
   (\<exists>x. toJulianDay \<lparr>year = d_2000, month = d_1, day = d_1, hour = d_12\<rparr> GREGORIAN ()
          = Inr x \<and> isfinite x)"
  using toJulianDay_finite_no_error [OF jan1_valid, of "()"] jan1_valid
  by blast

subsection \<open>C10: the method is constant\<close>

text \<open>
  C10: for every combination of arguments, over all bit patterns of a double (so
  out-of-range, negative, infinite and NaN arguments too), \<open>swe_julday\<close> returns the
  double 0.0, of value 0, and reports no error; calls with different arguments have
  the same outcome.
\<close>

theorem swe_julday_constant:
  "fst (swe_julday self y m d h g w) = Inr d_0 \<and>
   returns_value (fst (swe_julday self y m d h g w)) 0 \<and>
   fst (swe_julday self y m d h g w) = fst (swe_julday self' y' m' d' h' g' w')"
  by (simp add: swe_julday_outcome returns_value_def isfinite_d_0 value_of_d_0)

text \<open>
  The theorem at a NaN year, an infinite month and the negative day -30, against the
  J2000.0 arguments.
\<close>

theorem swe_julday_constant_witness:
  "isnan d_nan \<and> isinf d_inf \<and> value_of d_neg_30 = - 30 \<and>
   fst (swe_julday RNSwephImpl d_nan d_inf d_neg_30 d_nan d_inf ()) = Inr d_0 \<and>
   fst (swe_julday RNSwephImpl d_nan d_inf d_neg_30 d_nan d_inf ()) =
   fst (swe_julday RNSwephImpl d_2000 d_1 d_1 d_12 d_1 ())"
  using swe_julday_constant
      [of RNSwephImpl d_nan d_inf d_neg_30 d_nan d_inf "()" RNSwephImpl d_2000 d_1 d_1 d_12
          d_1 "()"]
    non_finite_literals(1,3) value_of_d_neg_30
  by blast

end
